theory Spec2Isabelle
  imports Complex_Main
begin

section \<open>The globe anchor component (CesiumGlobeAnchorComponent.h)\<close>

text \<open>
  The class \<^verbatim>\<open>UCesiumGlobeAnchorComponent\<close> anchors an actor to the globe. Its header
  gives the fields with their default member initialisers, six inline accessors, and
  the declarations (with their documentation) of every other member function.

  A \<^verbatim>\<open>double\<close> is modelled as a \<^typ>\<open>real\<close>: rounding, NaN and signed zero are outside
  this model. A pointer to a georeference actor is an \<open>option\<close> of the actor's
  identity, \<^verbatim>\<open>nullptr\<close> being \<open>None\<close>.
\<close>

subsection \<open>Vectors and matrices\<close>

text \<open>
  \<^verbatim>\<open>glm::dvec3\<close>, \<^verbatim>\<open>glm::dvec4\<close> and \<^verbatim>\<open>glm::dmat4\<close>. A \<^verbatim>\<open>dmat4\<close> is four column
  vectors; the header checks that it has the size of \<^verbatim>\<open>double[16]\<close> and reads the
  array \<^verbatim>\<open>_actorToECEF_Array\<close> through a reference of that type.
\<close>

datatype dvec3 = DVec3 (vx: real) (vy: real) (vz: real)

datatype dvec4 = DVec4 (wx: real) (wy: real) (wz: real) (ww: real)

datatype dmat4 = DMat4 (col0: dvec4) (col1: dvec4) (col2: dvec4) (col3: dvec4)

definition vec4_add :: "dvec4 \<Rightarrow> dvec4 \<Rightarrow> dvec4" where
  "vec4_add a b = DVec4 (wx a + wx b) (wy a + wy b) (wz a + wz b) (ww a + ww b)"

definition vec4_scale :: "dvec4 \<Rightarrow> real \<Rightarrow> dvec4" where
  "vec4_scale a k = DVec4 (wx a * k) (wy a * k) (wz a * k) (ww a * k)"

definition mat_vec :: "dmat4 \<Rightarrow> dvec4 \<Rightarrow> dvec4" where
  \<comment> \<open>matrix times column vector: the columns weighted by the vector's components\<close>
  "mat_vec m v =
     vec4_add
       (vec4_add (vec4_scale (col0 m) (wx v)) (vec4_scale (col1 m) (wy v)))
       (vec4_add (vec4_scale (col2 m) (wz v)) (vec4_scale (col3 m) (ww v)))"

definition mat_mul :: "dmat4 \<Rightarrow> dmat4 \<Rightarrow> dmat4" where
  \<comment> \<open>matrix product, column by column\<close>
  "mat_mul m n =
     DMat4 (mat_vec m (col0 n)) (mat_vec m (col1 n)) (mat_vec m (col2 n)) (mat_vec m (col3 n))"

definition translation :: "dmat4 \<Rightarrow> dvec3" where
  \<comment> \<open>the translation component of an affine transform: its last column\<close>
  "translation m = DVec3 (wx (col3 m)) (wy (col3 m)) (wz (col3 m))"

definition mat_identity :: dmat4 where
  "mat_identity = DMat4 (DVec4 1 0 0 0) (DVec4 0 1 0 0) (DVec4 0 0 1 0) (DVec4 0 0 0 1)"

definition mat_translate :: "real \<Rightarrow> real \<Rightarrow> real \<Rightarrow> dmat4" where
  "mat_translate x y z = DMat4 (DVec4 1 0 0 0) (DVec4 0 1 0 0) (DVec4 0 0 1 0) (DVec4 x y z 1)"

subsection \<open>The component's fields\<close>

type_synonym georef = nat

text \<open>
  The fields of the class in the order of the header, the leading underscore of the
  private ones dropped. \<open>Georeference\<close> is the soft pointer set by the user,
  \<open>ResolvedGeoreference\<close> the transient cached one.
\<close>

record GlobeAnchor =
  Georeference :: "georef option"
  ResolvedGeoreference :: "georef option"
  Latitude :: real
  Longitude :: real
  Height :: real
  ECEF_X :: real
  ECEF_Y :: real
  ECEF_Z :: real
  TeleportWhenUpdatingTransform :: bool
  AdjustOrientationForGlobeWhenMoving :: bool
  actorToECEF_Array :: dmat4
  actorToECEFIsValid :: bool
  updatingActorTransform :: bool
  onTransformChangedWhileUnregistered :: "nat option"

definition new_GlobeAnchor :: "dmat4 \<Rightarrow> GlobeAnchor" where
  \<comment> \<open>The default member initialisers. \<^verbatim>\<open>_actorToECEF_Array\<close> has none, so its
      content at construction is a parameter; the delegate handle is default-constructed
      (bound to nothing).\<close>
  "new_GlobeAnchor arr =
     \<lparr> Georeference = None,
       ResolvedGeoreference = None,
       Latitude = 0,
       Longitude = 0,
       Height = 0,
       ECEF_X = 0,
       ECEF_Y = 0,
       ECEF_Z = 0,
       TeleportWhenUpdatingTransform = True,
       AdjustOrientationForGlobeWhenMoving = True,
       actorToECEF_Array = arr,
       actorToECEFIsValid = False,
       updatingActorTransform = False,
       onTransformChangedWhileUnregistered = None \<rparr>"

subsection \<open>The inline accessors\<close>

text \<open>
  Each is \<^verbatim>\<open>double GetX() const noexcept { return this->X; }\<close>: it reads one field,
  tests nothing and, being \<^verbatim>\<open>const\<close>, changes nothing.
\<close>

definition GetLatitude :: "GlobeAnchor \<Rightarrow> real" where
  "GetLatitude this = Latitude this"

definition GetLongitude :: "GlobeAnchor \<Rightarrow> real" where
  "GetLongitude this = Longitude this"

definition GetHeight :: "GlobeAnchor \<Rightarrow> real" where
  "GetHeight this = Height this"

definition GetEcefX :: "GlobeAnchor \<Rightarrow> real" where
  "GetEcefX this = ECEF_X this"

definition GetEcefY :: "GlobeAnchor \<Rightarrow> real" where
  "GetEcefY this = ECEF_Y this"

definition GetEcefZ :: "GlobeAnchor \<Rightarrow> real" where
  "GetEcefZ this = ECEF_Z this"

subsection \<open>The component in its scene\<close>

text \<open>
  What the component works with besides its own fields: the local pose of the owning
  actor's root (the host scene graph), the local-to-ECEF and ECEF-to-local transforms of
  the georeference in effect, the georeference actors that can be found in the level (in
  the order a search meets them), and the georeferences whose change notification is bound
  to the component. Two counters record what happened: the notifications of a changed
  local pose delivered to the component, and the recomputations of the globe transform
  from the local pose.
\<close>

record World =
  anchor :: GlobeAnchor
  actorTransform :: dmat4
  georeferenceToEcef :: dmat4
  ecefToGeoreference :: dmat4
  levelGeoreferences :: "georef list"
  subscriptions :: "georef list"
  transformNotifications :: nat
  globeRecomputations :: nat

definition call_const :: "(GlobeAnchor \<Rightarrow> 'a) \<Rightarrow> World \<Rightarrow> 'a \<times> World" where
  \<comment> \<open>a call of a \<^verbatim>\<open>const\<close> member function: the value read from the component, and
      the world as it was\<close>
  "call_const f w = (f (anchor w), w)"

definition ecefOfLocalPose :: "World \<Rightarrow> dvec3" where
  \<comment> \<open>the ECEF position that the current local pose has under the georeference: the
      translation of the local pose carried through the local-to-ECEF transform\<close>
  "ecefOfLocalPose w = translation (mat_mul (georeferenceToEcef w) (actorTransform w))"

definition unrealToEcef_example :: dmat4 where
  \<comment> \<open>a local-to-ECEF transform: centimetres to metres, the Y axis flipped, the origin on
      the equator at the prime meridian\<close>
  "unrealToEcef_example =
     DMat4 (DVec4 (1/100) 0 0 0) (DVec4 0 (- (1/100)) 0 0) (DVec4 0 0 (1/100) 0)
       (DVec4 6378137 0 0 1)"

definition ecefToUnreal_example :: dmat4 where
  \<comment> \<open>the inverse of \<open>unrealToEcef_example\<close>\<close>
  "ecefToUnreal_example =
     DMat4 (DVec4 100 0 0 0) (DVec4 0 (- 100) 0 0) (DVec4 0 0 100 0)
       (DVec4 (- 637813700) 0 0 1)"

definition fresh_world :: World where
  \<comment> \<open>a newly constructed component on an actor placed at (100, 200, 300) of the level\<close>
  "fresh_world =
     \<lparr> anchor = new_GlobeAnchor mat_identity,
       actorTransform = mat_translate 100 200 300,
       georeferenceToEcef = unrealToEcef_example,
       ecefToGeoreference = ecefToUnreal_example,
       levelGeoreferences = [],
       subscriptions = [],
       transformNotifications = 0,
       globeRecomputations = 0 \<rparr>"

subsection \<open>The georeference resolver\<close>

text \<open>
  The header declares \<^verbatim>\<open>SetGeoreference\<close>, \<^verbatim>\<open>ResolveGeoreference\<close> and
  \<^verbatim>\<open>InvalidateResolvedGeoreference\<close>; their bodies are in the implementation file.
\<close>

definition createDefaultGeoreference :: "georef list \<Rightarrow> georef" where
  \<comment> \<open>Modelled from the spec: the creation of a default georeference actor is the
      georeference collaborator's ("create default instance in scene"). The new actor's
      identity is one that no actor of the level has.\<close>
  "createDefaultGeoreference gs = Suc (fold max gs 0)"

definition ResolveGeoreference :: "World \<Rightarrow> georef option \<times> World" where
  \<comment> \<open>Modelled from the spec: the body of \<^verbatim>\<open>ResolveGeoreference\<close> is missing. The spec:
      "returns the effective georeference: the explicitly assigned one if set, otherwise
      the first one discoverable in the current scene, otherwise a newly created default
      one. Result is cached; subsequent calls return the same instance until explicitly
      invalidated. On each successful resolution the resolver subscribes to the
      georeference's change notification."\<close>
  "ResolveGeoreference w =
     (case ResolvedGeoreference (anchor w) of
        Some g \<Rightarrow> (Some g, w)
      | None \<Rightarrow>
          (let w1 =
                 (case Georeference (anchor w) of
                    Some e \<Rightarrow> w\<lparr>anchor := (anchor w)\<lparr>ResolvedGeoreference := Some e\<rparr>\<rparr>
                  | None \<Rightarrow>
                      (case levelGeoreferences w of
                         g # gs \<Rightarrow> w\<lparr>anchor := (anchor w)\<lparr>ResolvedGeoreference := Some g\<rparr>\<rparr>
                       | [] \<Rightarrow>
                           (let n = createDefaultGeoreference (levelGeoreferences w)
                            in w\<lparr>anchor := (anchor w)\<lparr>ResolvedGeoreference := Some n\<rparr>,
                                 levelGeoreferences := levelGeoreferences w @ [n]\<rparr>)));
               w2 =
                 (case ResolvedGeoreference (anchor w1) of
                    Some g \<Rightarrow> w1\<lparr>subscriptions := g # subscriptions w1\<rparr>
                  | None \<Rightarrow> w1)
           in (ResolvedGeoreference (anchor w2), w2)))"

definition InvalidateResolvedGeoreference :: "World \<Rightarrow> World" where
  \<comment> \<open>Modelled from the spec: the body is missing. The spec: "invalidate() unsubscribes and
      clears the cache, forcing re-resolution on next resolve()".\<close>
  "InvalidateResolvedGeoreference w =
     (case ResolvedGeoreference (anchor w) of
        Some g \<Rightarrow>
          w\<lparr>subscriptions := remove1 g (subscriptions w),
            anchor := (anchor w)\<lparr>ResolvedGeoreference := None\<rparr>\<rparr>
      | None \<Rightarrow> w)"

definition SetGeoreference :: "georef option \<Rightarrow> World \<Rightarrow> World" where
  \<comment> \<open>Modelled from the spec: the body is missing. The spec: "Setting a new explicit
      georeference invalidates the old cached value immediately."\<close>
  "SetGeoreference NewGeoreference w =
     InvalidateResolvedGeoreference
       (w\<lparr>anchor := (anchor w)\<lparr>Georeference := NewGeoreference\<rparr>\<rparr>)"

definition resolver_consistent :: "GlobeAnchor \<Rightarrow> bool" where
  \<comment> \<open>the cached georeference, when there is one next to an explicitly assigned one, is
      the assigned one\<close>
  "resolver_consistent a =
     (case ResolvedGeoreference a of
        None \<Rightarrow> True
      | Some g \<Rightarrow> (case Georeference a of None \<Rightarrow> True | Some e \<Rightarrow> g = e))"

definition level_world :: "georef option \<Rightarrow> georef list \<Rightarrow> World" where
  \<comment> \<open>a newly constructed component with the given assigned georeference, in a level with
      the given georeference actors\<close>
  "level_world e gs =
     fresh_world\<lparr>anchor := (anchor fresh_world)\<lparr>Georeference := e\<rparr>,
       levelGeoreferences := gs\<rparr>"

definition cached_world :: World where
  \<comment> \<open>a component that has georeference 5 in its cache, in a level where georeference 3
      has since been placed before it\<close>
  "cached_world =
     (level_world None [3, 5])
       \<lparr>anchor := (anchor (level_world None [3, 5]))\<lparr>ResolvedGeoreference := Some 5\<rparr>\<rparr>"

subsection \<open>The transform engine: a changed local pose\<close>

text \<open>
  The ellipsoid's conversion of an ECEF position to longitude (degrees), latitude
  (degrees) and height (metres), and the curvature adjustment of a candidate globe
  transform against the one before the move, belong to the geospatial library. They are
  parameters of the functions that use them.
\<close>

record Geodesy =
  cartesianToCartographic :: "dvec3 \<Rightarrow> dvec3"
  adjustOrientationForCurvature :: "dmat4 \<Rightarrow> dmat4 \<Rightarrow> dmat4"

definition updateGlobeTransformFromActorTransform :: "World \<Rightarrow> World" where
  \<comment> \<open>Modelled from the spec: the body of \<^verbatim>\<open>_updateGlobeTransformFromActorTransform\<close> is
      missing. The spec (updateGlobalFromLocal): "reads the current local pose from the host
      scene graph, combines it with the georeference's local-to-global transform, stores the
      result as the global transform, sets validity to Valid. No side effect on
      geodetic/ECEF scalars by itself". Each call is counted.\<close>
  "updateGlobeTransformFromActorTransform w =
     w\<lparr>anchor := (anchor w)
          \<lparr>actorToECEF_Array := mat_mul (georeferenceToEcef w) (actorTransform w),
            actorToECEFIsValid := True\<rparr>,
       globeRecomputations := Suc (globeRecomputations w)\<rparr>"

definition updateActorTransformFromGlobeTransform :: "World \<Rightarrow> dmat4" where
  \<comment> \<open>Modelled from the spec: the body of \<^verbatim>\<open>_updateActorTransformFromGlobeTransform\<close> is
      missing. The spec (updateLocalFromGlobal): "Combines the global transform with the
      georeference's global-to-local transform to produce a local pose; returns it without
      itself writing to the scene graph". The call with an origin override is not
      modelled.\<close>
  "updateActorTransformFromGlobeTransform w =
     mat_mul (ecefToGeoreference w) (actorToECEF_Array (anchor w))"

definition updateCartesianProperties :: "World \<Rightarrow> World" where
  \<comment> \<open>Modelled from the spec: the body of \<^verbatim>\<open>_updateCartesianProperties\<close> is missing. The
      spec: "project the global transform's translation into ECEF form and overwrite the
      corresponding scalar triple; no other state changes".\<close>
  "updateCartesianProperties w =
     (let p = translation (actorToECEF_Array (anchor w))
      in w\<lparr>anchor := (anchor w)\<lparr>ECEF_X := vx p, ECEF_Y := vy p, ECEF_Z := vz p\<rparr>\<rparr>)"

definition updateCartographicProperties :: "Geodesy \<Rightarrow> World \<Rightarrow> World" where
  \<comment> \<open>Modelled from the spec: the body of \<^verbatim>\<open>_updateCartographicProperties\<close> is missing.
      The spec: "project the global transform's translation into geodetic form and
      overwrite the corresponding scalar triple; no other state changes".\<close>
  "updateCartographicProperties G w =
     (let c = cartesianToCartographic G (translation (actorToECEF_Array (anchor w)))
      in w\<lparr>anchor := (anchor w)\<lparr>Longitude := vx c, Latitude := vy c, Height := vz c\<rparr>\<rparr>)"

text \<open>
  The handler of the host's notification that the local pose has changed. The host calls
  it for every write of the local pose, the component's own write included, so the write
  of the adjusted pose calls the handler again from within.
\<close>

function onActorTransformChanged :: "Geodesy \<Rightarrow> World \<Rightarrow> World" where
  \<comment> \<open>Modelled from the spec: the body of \<^verbatim>\<open>_onActorTransformChanged\<close> is missing. The
      spec: "the host notifies the component whenever the local pose changes, the transform
      engine recomputes the global transform and geodetic/ECEF scalars, the engine applies
      curvature adjustment if enabled"; the adjustment is of a candidate against "an
      existing global transform (authoritative before the move)"; "writing the local pose
      back to the host scene graph itself raises a local-pose-changed notification; a guard
      flag must suppress re-entrant conversion while such a self-triggered write is in
      flight"; the guard is "set on entry to the write-back path and cleared on exit". The
      header: "further calls that are received by _onActorTransformChanged should be
      ignored". Each delivery is counted.\<close>
  "onActorTransformChanged G w =
     (let n = w\<lparr>transformNotifications := Suc (transformNotifications w)\<rparr>
      in if updatingActorTransform (anchor n) then n
         else
           (let old = actorToECEF_Array (anchor n);
                wasValid = actorToECEFIsValid (anchor n);
                w1 = updateGlobeTransformFromActorTransform n;
                w2 =
                  (if wasValid \<and> AdjustOrientationForGlobeWhenMoving (anchor w1)
                   then
                     (let adjusted =
                            adjustOrientationForCurvature G old (actorToECEF_Array (anchor w1));
                          w3 = w1\<lparr>anchor := (anchor w1)
                                     \<lparr>actorToECEF_Array := adjusted,
                                       updatingActorTransform := True\<rparr>\<rparr>;
                          w4 = w3\<lparr>actorTransform := updateActorTransformFromGlobeTransform w3\<rparr>;
                          w5 = onActorTransformChanged G w4
                      in w5\<lparr>anchor := (anchor w5)\<lparr>updatingActorTransform := False\<rparr>\<rparr>)
                   else w1)
            in updateCartographicProperties G (updateCartesianProperties w2)))"
  by pat_completeness auto
termination
  by (relation "measure (\<lambda>(G, w). if updatingActorTransform (anchor w) then 0 else 1)")
    (auto simp add: updateGlobeTransformFromActorTransform_def)

declare onActorTransformChanged.simps [simp del]

definition guarded_world :: World where
  \<comment> \<open>the component of \<open>fresh_world\<close> in the middle of its own write of the local pose\<close>
  "guarded_world = fresh_world\<lparr>anchor := (anchor fresh_world)\<lparr>updatingActorTransform := True\<rparr>\<rparr>"

definition moved_world :: World where
  \<comment> \<open>a component whose globe transform is valid for the place (100, 200, 300), on an
      actor that the host has just moved to (400, 200, 300)\<close>
  "moved_world =
     fresh_world
       \<lparr>anchor := (anchor fresh_world)
          \<lparr>actorToECEF_Array := mat_mul unrealToEcef_example (mat_translate 100 200 300),
            actorToECEFIsValid := True,
            ECEF_X := 6378138, ECEF_Y := - 2, ECEF_Z := 3\<rparr>,
        actorTransform := mat_translate 400 200 300\<rparr>"

section \<open>The state at construction\<close>

text \<open>
  C10. A freshly constructed component has latitude, longitude, height and the three
  ECEF coordinates all 0.0, both behaviour flags true, the validity flag false and the
  resolved georeference null; the inline accessors read those zeros. This holds whatever
  the sixteen doubles of the transform array, which has no initialiser.
\<close>

theorem new_GlobeAnchor_defaults:
  "Latitude (new_GlobeAnchor arr) = 0 \<and>
   Longitude (new_GlobeAnchor arr) = 0 \<and>
   Height (new_GlobeAnchor arr) = 0 \<and>
   ECEF_X (new_GlobeAnchor arr) = 0 \<and>
   ECEF_Y (new_GlobeAnchor arr) = 0 \<and>
   ECEF_Z (new_GlobeAnchor arr) = 0 \<and>
   TeleportWhenUpdatingTransform (new_GlobeAnchor arr) \<and>
   AdjustOrientationForGlobeWhenMoving (new_GlobeAnchor arr) \<and>
   \<not> actorToECEFIsValid (new_GlobeAnchor arr) \<and>
   ResolvedGeoreference (new_GlobeAnchor arr) = None \<and>
   Georeference (new_GlobeAnchor arr) = None \<and>
   \<not> updatingActorTransform (new_GlobeAnchor arr) \<and>
   GetLatitude (new_GlobeAnchor arr) = 0 \<and>
   GetLongitude (new_GlobeAnchor arr) = 0 \<and>
   GetHeight (new_GlobeAnchor arr) = 0 \<and>
   GetEcefX (new_GlobeAnchor arr) = 0 \<and>
   GetEcefY (new_GlobeAnchor arr) = 0 \<and>
   GetEcefZ (new_GlobeAnchor arr) = 0"
  by (simp add: new_GlobeAnchor_def GetLatitude_def GetLongitude_def GetHeight_def
      GetEcefX_def GetEcefY_def GetEcefZ_def)

section \<open>Reads while the globe transform is not valid\<close>

lemma example_transforms_inverse:
  "mat_mul ecefToUnreal_example unrealToEcef_example = mat_identity \<and>
   mat_mul unrealToEcef_example ecefToUnreal_example = mat_identity"
  by (simp add: ecefToUnreal_example_def unrealToEcef_example_def mat_identity_def
      mat_mul_def mat_vec_def vec4_add_def vec4_scale_def)

lemma ecefOfLocalPose_fresh_world: "ecefOfLocalPose fresh_world = DVec3 6378138 (- 2) 3"
  by (simp add: ecefOfLocalPose_def fresh_world_def unrealToEcef_example_def
      mat_translate_def mat_mul_def mat_vec_def vec4_add_def vec4_scale_def translation_def)

text \<open>
  C3, as the specification has it: a read made while the validity flag is false first
  recomputes the globe transform from the local pose, so that the value returned agrees
  with the local pose. The accessors of the header do not: on the newly constructed
  component of \<open>fresh_world\<close> the flag is false, the actor stands at ECEF
  (6378138, -2, 3), and \<^verbatim>\<open>GetEcefX\<close>, \<^verbatim>\<open>GetEcefY\<close> and \<^verbatim>\<open>GetEcefZ\<close> return the
  stored 0.0; after the call the flag is still false.
\<close>

theorem read_while_invalid_counterexample:
  "\<not> actorToECEFIsValid (anchor fresh_world) \<and>
   fst (call_const GetEcefX fresh_world) = 0 \<and>
   vx (ecefOfLocalPose fresh_world) = 6378138 \<and>
   fst (call_const GetEcefX fresh_world) \<noteq> vx (ecefOfLocalPose fresh_world) \<and>
   fst (call_const GetEcefY fresh_world) \<noteq> vy (ecefOfLocalPose fresh_world) \<and>
   fst (call_const GetEcefZ fresh_world) \<noteq> vz (ecefOfLocalPose fresh_world) \<and>
   snd (call_const GetEcefX fresh_world) = fresh_world \<and>
   \<not> actorToECEFIsValid (anchor (snd (call_const GetEcefX fresh_world)))"
  by (simp add: ecefOfLocalPose_fresh_world call_const_def GetEcefX_def GetEcefY_def
      GetEcefZ_def)
    (simp add: fresh_world_def new_GlobeAnchor_def)

text \<open>
  C3, amended: each of the six inline accessors returns the field as it is stored and
  leaves the component and its scene unchanged, whatever the validity flag and the stored
  transform; nothing is recomputed by a read.
\<close>

theorem accessors_return_stored_fields:
  "call_const GetLatitude w = (Latitude (anchor w), w) \<and>
   call_const GetLongitude w = (Longitude (anchor w), w) \<and>
   call_const GetHeight w = (Height (anchor w), w) \<and>
   call_const GetEcefX w = (ECEF_X (anchor w), w) \<and>
   call_const GetEcefY w = (ECEF_Y (anchor w), w) \<and>
   call_const GetEcefZ w = (ECEF_Z (anchor w), w) \<and>
   GetLatitude (a\<lparr>actorToECEFIsValid := b, actorToECEF_Array := m\<rparr>) = Latitude a \<and>
   GetLongitude (a\<lparr>actorToECEFIsValid := b, actorToECEF_Array := m\<rparr>) = Longitude a \<and>
   GetHeight (a\<lparr>actorToECEFIsValid := b, actorToECEF_Array := m\<rparr>) = Height a \<and>
   GetEcefX (a\<lparr>actorToECEFIsValid := b, actorToECEF_Array := m\<rparr>) = ECEF_X a \<and>
   GetEcefY (a\<lparr>actorToECEFIsValid := b, actorToECEF_Array := m\<rparr>) = ECEF_Y a \<and>
   GetEcefZ (a\<lparr>actorToECEFIsValid := b, actorToECEF_Array := m\<rparr>) = ECEF_Z a"
  by (simp add: call_const_def GetLatitude_def GetLongitude_def GetHeight_def
      GetEcefX_def GetEcefY_def GetEcefZ_def)

section \<open>The georeference resolver's contract\<close>

lemma ResolveGeoreference_cached:
  "ResolvedGeoreference (anchor w) = Some g \<Longrightarrow> ResolveGeoreference w = (Some g, w)"
  by (simp add: ResolveGeoreference_def)

lemma ResolveGeoreference_caches:
  "ResolvedGeoreference (anchor (snd (ResolveGeoreference w))) = fst (ResolveGeoreference w)"
  by (simp add: ResolveGeoreference_def Let_def split: option.splits list.splits)

lemma ResolveGeoreference_not_null: "fst (ResolveGeoreference w) \<noteq> None"
  by (simp add: ResolveGeoreference_def Let_def split: option.splits list.splits)

lemma ResolveGeoreference_again:
  "ResolveGeoreference (snd (ResolveGeoreference w)) = ResolveGeoreference w"
proof -
  obtain g where g: "fst (ResolveGeoreference w) = Some g"
    using ResolveGeoreference_not_null [of w] by blast
  then have "ResolvedGeoreference (anchor (snd (ResolveGeoreference w))) = Some g"
    by (simp add: ResolveGeoreference_caches)
  then have "ResolveGeoreference (snd (ResolveGeoreference w)) =
      (Some g, snd (ResolveGeoreference w))"
    by (rule ResolveGeoreference_cached)
  with g show ?thesis by (simp add: prod_eq_iff)
qed

lemma ResolveGeoreference_repeated:
  "((snd \<circ> ResolveGeoreference) ^^ n) (snd (ResolveGeoreference w)) = snd (ResolveGeoreference w)"
  by (induction n) (simp_all add: ResolveGeoreference_again)

lemma ResolveGeoreference_explicit:
  assumes "resolver_consistent (anchor w)" and "Georeference (anchor w) = Some e"
  shows "fst (ResolveGeoreference w) = Some e"
  using assms
  by (simp add: ResolveGeoreference_def resolver_consistent_def Let_def split: option.splits)

lemma ResolveGeoreference_first_in_level:
  assumes "ResolvedGeoreference (anchor w) = None" and "Georeference (anchor w) = None"
    and "levelGeoreferences w = g # gs"
  shows "fst (ResolveGeoreference w) = Some g"
    and "levelGeoreferences (snd (ResolveGeoreference w)) = g # gs"
  using assms by (simp_all add: ResolveGeoreference_def Let_def)

lemma createDefaultGeoreference_new: "createDefaultGeoreference gs \<notin> set gs"
proof -
  have "\<And>a. \<forall>g \<in> set gs. g \<le> fold max gs a"
  proof (induction gs)
    case Nil
    show ?case by simp
  next
    case (Cons x xs)
    have "max x a \<le> fold max xs (max x a)"
      by (induction xs arbitrary: a x) (simp_all add: max.coboundedI2 order_trans [rotated])
    with Cons show ?case by auto
  qed
  then have "\<forall>g \<in> set gs. g < createDefaultGeoreference gs"
    by (simp add: createDefaultGeoreference_def less_Suc_eq_le)
  then show ?thesis by blast
qed

lemma ResolveGeoreference_creates:
  assumes "ResolvedGeoreference (anchor w) = None" and "Georeference (anchor w) = None"
    and "levelGeoreferences w = []"
  shows "fst (ResolveGeoreference w) = Some (createDefaultGeoreference (levelGeoreferences w))"
    and "levelGeoreferences (snd (ResolveGeoreference w)) =
      [createDefaultGeoreference (levelGeoreferences w)]"
  using assms by (simp_all add: ResolveGeoreference_def Let_def)

lemma InvalidateResolvedGeoreference_clears:
  "ResolvedGeoreference (anchor (InvalidateResolvedGeoreference w)) = None"
  by (simp add: InvalidateResolvedGeoreference_def split: option.splits)

lemma SetGeoreference_clears:
  "ResolvedGeoreference (anchor (SetGeoreference x w)) = None"
  "Georeference (anchor (SetGeoreference x w)) = x"
  by (simp_all add: SetGeoreference_def InvalidateResolvedGeoreference_def split: option.splits)

lemma resolver_consistent_new: "resolver_consistent (new_GlobeAnchor arr)"
  by (simp add: resolver_consistent_def new_GlobeAnchor_def)

lemma resolver_consistent_kept:
  "resolver_consistent (anchor w) \<Longrightarrow> resolver_consistent (anchor (snd (ResolveGeoreference w)))"
  "resolver_consistent (anchor (InvalidateResolvedGeoreference w))"
  "resolver_consistent (anchor (SetGeoreference x w))"
  by (auto simp add: resolver_consistent_def ResolveGeoreference_def Let_def SetGeoreference_def
      InvalidateResolvedGeoreference_def split: option.splits list.splits)

text \<open>
  C4. \<^verbatim>\<open>ResolveGeoreference\<close> returns the explicitly assigned georeference when one is
  set, otherwise the first georeference found in the level, otherwise a newly created
  one (an actor the level did not have, and has afterwards). The result is never null and
  is cached: as long as the cache holds a georeference, a call returns that georeference
  and changes nothing, whatever else has changed in the component or its scene since (the
  level's georeferences, the assignment field, the pose), so every later call returns the
  same georeference, until \<^verbatim>\<open>InvalidateResolvedGeoreference\<close> or \<^verbatim>\<open>SetGeoreference\<close>
  clears the cache, after which a newly assigned georeference is the one resolved. The
  identity of a created georeference is new for every level. The first part is stated for
  every state in which the cache, if filled, agrees with the assignment: the state at
  construction is one, and the three operations keep it so.
\<close>

theorem ResolveGeoreference_contract:
  "(resolver_consistent (anchor w) \<longrightarrow> Georeference (anchor w) = Some e \<longrightarrow>
      fst (ResolveGeoreference w) = Some e) \<and>
   (ResolvedGeoreference (anchor w) = None \<longrightarrow> Georeference (anchor w) = None \<longrightarrow>
      levelGeoreferences w = g # gs \<longrightarrow>
      fst (ResolveGeoreference w) = Some g \<and>
      levelGeoreferences (snd (ResolveGeoreference w)) = levelGeoreferences w) \<and>
   (ResolvedGeoreference (anchor w) = None \<longrightarrow> Georeference (anchor w) = None \<longrightarrow>
      levelGeoreferences w = [] \<longrightarrow>
      fst (ResolveGeoreference w) = Some (createDefaultGeoreference (levelGeoreferences w)) \<and>
      createDefaultGeoreference (levelGeoreferences w) \<notin> set (levelGeoreferences w) \<and>
      createDefaultGeoreference (levelGeoreferences w)
        \<in> set (levelGeoreferences (snd (ResolveGeoreference w)))) \<and>
   createDefaultGeoreference l \<notin> set l \<and>
   fst (ResolveGeoreference w) \<noteq> None \<and>
   ResolvedGeoreference (anchor (snd (ResolveGeoreference w))) = fst (ResolveGeoreference w) \<and>
   (ResolvedGeoreference (anchor w) = Some c \<longrightarrow> ResolveGeoreference w = (Some c, w)) \<and>
   (ResolvedGeoreference (anchor w') = fst (ResolveGeoreference w) \<longrightarrow>
      ResolveGeoreference w' = (fst (ResolveGeoreference w), w')) \<and>
   ResolveGeoreference (((snd \<circ> ResolveGeoreference) ^^ n) (snd (ResolveGeoreference w))) =
     (fst (ResolveGeoreference w), snd (ResolveGeoreference w)) \<and>
   ResolvedGeoreference (anchor (InvalidateResolvedGeoreference w)) = None \<and>
   ResolvedGeoreference (anchor (SetGeoreference x w)) = None \<and>
   fst (ResolveGeoreference (SetGeoreference (Some e') w)) = Some e' \<and>
   (resolver_consistent (anchor w) \<longrightarrow>
      resolver_consistent (anchor (snd (ResolveGeoreference w)))) \<and>
   resolver_consistent (anchor (InvalidateResolvedGeoreference w)) \<and>
   resolver_consistent (anchor (SetGeoreference x w))"
proof -
  have explicit: "resolver_consistent (anchor w) \<longrightarrow> Georeference (anchor w) = Some e \<longrightarrow>
      fst (ResolveGeoreference w) = Some e"
    by (simp add: ResolveGeoreference_explicit)
  have found: "ResolvedGeoreference (anchor w) = None \<longrightarrow> Georeference (anchor w) = None \<longrightarrow>
      levelGeoreferences w = g # gs \<longrightarrow>
      fst (ResolveGeoreference w) = Some g \<and>
      levelGeoreferences (snd (ResolveGeoreference w)) = levelGeoreferences w"
    by (simp add: ResolveGeoreference_first_in_level)
  have created: "ResolvedGeoreference (anchor w) = None \<longrightarrow> Georeference (anchor w) = None \<longrightarrow>
      levelGeoreferences w = [] \<longrightarrow>
      fst (ResolveGeoreference w) = Some (createDefaultGeoreference (levelGeoreferences w)) \<and>
      createDefaultGeoreference (levelGeoreferences w) \<notin> set (levelGeoreferences w) \<and>
      createDefaultGeoreference (levelGeoreferences w)
        \<in> set (levelGeoreferences (snd (ResolveGeoreference w)))"
    by (simp add: ResolveGeoreference_creates)
  have again: "ResolveGeoreference (((snd \<circ> ResolveGeoreference) ^^ n) (snd (ResolveGeoreference w))) =
     (fst (ResolveGeoreference w), snd (ResolveGeoreference w))"
    by (simp add: ResolveGeoreference_repeated ResolveGeoreference_again)
  have reassigned: "fst (ResolveGeoreference (SetGeoreference (Some e') w)) = Some e'"
    by (rule ResolveGeoreference_explicit)
      (simp_all add: resolver_consistent_kept SetGeoreference_clears)
  have kept: "resolver_consistent (anchor w) \<longrightarrow>
      resolver_consistent (anchor (snd (ResolveGeoreference w)))"
    by (simp add: resolver_consistent_kept)
  have cached: "ResolvedGeoreference (anchor w) = Some c \<longrightarrow> ResolveGeoreference w = (Some c, w)"
    by (simp add: ResolveGeoreference_cached)
  have later: "ResolvedGeoreference (anchor w') = fst (ResolveGeoreference w) \<longrightarrow>
      ResolveGeoreference w' = (fst (ResolveGeoreference w), w')"
  proof
    assume held: "ResolvedGeoreference (anchor w') = fst (ResolveGeoreference w)"
    obtain r where r: "fst (ResolveGeoreference w) = Some r"
      using ResolveGeoreference_not_null [of w] by blast
    with held have "ResolveGeoreference w' = (Some r, w')"
      by (simp add: ResolveGeoreference_cached)
    with r show "ResolveGeoreference w' = (fst (ResolveGeoreference w), w')"
      by simp
  qed
  note rest = createDefaultGeoreference_new [of l] ResolveGeoreference_not_null [of w] ResolveGeoreference_caches [of w]
    InvalidateResolvedGeoreference_clears [of w] SetGeoreference_clears(1) [of x w]
    resolver_consistent_kept(2) [of w] resolver_consistent_kept(3) [of x w]
  show ?thesis
    by (intro conjI) (rule explicit found created again reassigned kept cached later rest)+
qed

theorem ResolveGeoreference_contract_witness:
  "resolver_consistent (anchor (level_world (Some 7) [3, 5])) \<and>
   Georeference (anchor (level_world (Some 7) [3, 5])) = Some 7 \<and>
   fst (ResolveGeoreference (level_world (Some 7) [3, 5])) = Some 7 \<and>
   ResolvedGeoreference (anchor (level_world None [3, 5])) = None \<and>
   Georeference (anchor (level_world None [3, 5])) = None \<and>
   levelGeoreferences (level_world None [3, 5]) = 3 # [5] \<and>
   fst (ResolveGeoreference (level_world None [3, 5])) = Some 3 \<and>
   ResolvedGeoreference (anchor (level_world None [])) = None \<and>
   Georeference (anchor (level_world None [])) = None \<and>
   levelGeoreferences (level_world None []) = [] \<and>
   fst (ResolveGeoreference (level_world None [])) = Some 1 \<and>
   1 \<in> set (levelGeoreferences (snd (ResolveGeoreference (level_world None [])))) \<and>
   fst (ResolveGeoreference (snd (ResolveGeoreference (level_world None [])))) = Some 1 \<and>
   ResolvedGeoreference (anchor cached_world) = Some 5 \<and>
   levelGeoreferences cached_world = [3, 5] \<and>
   ResolveGeoreference cached_world = (Some 5, cached_world) \<and>
   fst (ResolveGeoreference (level_world None [5])) = Some 5 \<and>
   ResolvedGeoreference (anchor cached_world) = fst (ResolveGeoreference (level_world None [5])) \<and>
   ResolveGeoreference cached_world =
     (fst (ResolveGeoreference (level_world None [5])), cached_world)"
proof -
  have a: "resolver_consistent (anchor (level_world (Some 7) [3, 5]))"
    "Georeference (anchor (level_world (Some 7) [3, 5])) = Some 7"
    by (simp_all add: level_world_def fresh_world_def new_GlobeAnchor_def resolver_consistent_def)
  have b: "ResolvedGeoreference (anchor (level_world None [3, 5])) = None"
    "Georeference (anchor (level_world None [3, 5])) = None"
    "levelGeoreferences (level_world None [3, 5]) = 3 # [5]"
    by (simp_all add: level_world_def fresh_world_def new_GlobeAnchor_def)
  have c: "ResolvedGeoreference (anchor (level_world None [])) = None"
    "Georeference (anchor (level_world None [])) = None"
    "levelGeoreferences (level_world None []) = []"
    by (simp_all add: level_world_def fresh_world_def new_GlobeAnchor_def)
  have one: "createDefaultGeoreference [] = 1"
    by (simp add: createDefaultGeoreference_def)
  have d: "ResolvedGeoreference (anchor cached_world) = Some 5"
    "levelGeoreferences cached_world = [3, 5]"
    by (simp_all add: cached_world_def level_world_def fresh_world_def)
  have e: "ResolvedGeoreference (anchor (level_world None [5])) = None"
    "Georeference (anchor (level_world None [5])) = None"
    "levelGeoreferences (level_world None [5]) = 5 # []"
    by (simp_all add: level_world_def fresh_world_def new_GlobeAnchor_def)
  have first: "fst (ResolveGeoreference (level_world None [5])) = Some 5"
    using e ResolveGeoreference_contract [where w = "level_world None [5]" and g = 5 and gs = "[]"
        and w' = "level_world None [5]"]
    by simp
  have later: "ResolveGeoreference cached_world =
      (fst (ResolveGeoreference (level_world None [5])), cached_world)"
    using d first
      ResolveGeoreference_contract [where w = "level_world None [5]" and w' = cached_world]
    by simp
  show ?thesis
    using a b c d first later
      ResolveGeoreference_contract [where w = "level_world (Some 7) [3, 5]" and e = 7
        and w' = "level_world (Some 7) [3, 5]"]
      ResolveGeoreference_contract [where w = "level_world None [3, 5]" and g = 3 and gs = "[5]"
        and w' = "level_world None [3, 5]"]
      ResolveGeoreference_contract [where w = "level_world None []" and n = 0
        and w' = "level_world None []"]
      ResolveGeoreference_contract [where w = cached_world and c = 5 and w' = cached_world]
    by (simp add: one)
qed

section \<open>Notifications of a changed local pose\<close>

lemma onActorTransformChanged_ignored:
  assumes "updatingActorTransform (anchor w)"
  shows "onActorTransformChanged G w = w\<lparr>transformNotifications := Suc (transformNotifications w)\<rparr>"
  using assms by (subst onActorTransformChanged.simps) (simp add: Let_def)

lemma onActorTransformChanged_plain:
  assumes "\<not> updatingActorTransform (anchor w)"
    and "\<not> (actorToECEFIsValid (anchor w) \<and> AdjustOrientationForGlobeWhenMoving (anchor w))"
  shows "onActorTransformChanged G w =
    updateCartographicProperties G (updateCartesianProperties
      (updateGlobeTransformFromActorTransform
        (w\<lparr>transformNotifications := Suc (transformNotifications w)\<rparr>)))"
  using assms
  by (subst onActorTransformChanged.simps)
    (auto simp add: Let_def updateGlobeTransformFromActorTransform_def)

lemma onActorTransformChanged_adjusting:
  assumes "\<not> updatingActorTransform (anchor w)"
    and "actorToECEFIsValid (anchor w)" and "AdjustOrientationForGlobeWhenMoving (anchor w)"
  shows "onActorTransformChanged G w =
    updateCartographicProperties G (updateCartesianProperties
      (w\<lparr>globeRecomputations := Suc (globeRecomputations w),
         actorTransform :=
           mat_mul (ecefToGeoreference w)
             (adjustOrientationForCurvature G (actorToECEF_Array (anchor w))
               (mat_mul (georeferenceToEcef w) (actorTransform w))),
         transformNotifications := Suc (Suc (transformNotifications w)),
         anchor := (anchor w)
           \<lparr>actorToECEFIsValid := True,
            actorToECEF_Array :=
              adjustOrientationForCurvature G (actorToECEF_Array (anchor w))
                (mat_mul (georeferenceToEcef w) (actorTransform w)),
            updatingActorTransform := False\<rparr>\<rparr>))"
  using assms
  by (subst onActorTransformChanged.simps)
    (simp add: Let_def updateGlobeTransformFromActorTransform_def
      updateActorTransformFromGlobeTransform_def onActorTransformChanged_ignored)

lemma scalar_updates_keep:
  "globeRecomputations (updateCartographicProperties G (updateCartesianProperties w)) =
     globeRecomputations w"
  "transformNotifications (updateCartographicProperties G (updateCartesianProperties w)) =
     transformNotifications w"
  "actorTransform (updateCartographicProperties G (updateCartesianProperties w)) =
     actorTransform w"
  "actorToECEF_Array (anchor (updateCartographicProperties G (updateCartesianProperties w))) =
     actorToECEF_Array (anchor w)"
  "actorToECEFIsValid (anchor (updateCartographicProperties G (updateCartesianProperties w))) =
     actorToECEFIsValid (anchor w)"
  "updatingActorTransform (anchor (updateCartographicProperties G (updateCartesianProperties w))) =
     updatingActorTransform (anchor w)"
  by (simp_all add: updateCartographicProperties_def updateCartesianProperties_def Let_def)

text \<open>
  C2. One notification from outside (the guard flag clear) recomputes the globe
  transform from the local pose exactly once and leaves the guard clear. Where the
  orientation is adjusted, the component writes the adjusted local pose back, the host
  delivers a second notification for that write (two deliveries are counted), and still
  one recomputation is made. A notification that arrives while the guard flag is set
  changes nothing of the component or its scene: only its delivery is counted.
\<close>

theorem onActorTransformChanged_recomputes_once:
  "(updatingActorTransform (anchor w) \<longrightarrow>
      onActorTransformChanged G w =
        w\<lparr>transformNotifications := Suc (transformNotifications w)\<rparr>) \<and>
   (\<not> updatingActorTransform (anchor w) \<longrightarrow>
      globeRecomputations (onActorTransformChanged G w) = Suc (globeRecomputations w) \<and>
      actorToECEFIsValid (anchor (onActorTransformChanged G w)) \<and>
      \<not> updatingActorTransform (anchor (onActorTransformChanged G w))) \<and>
   (\<not> updatingActorTransform (anchor w) \<longrightarrow> actorToECEFIsValid (anchor w) \<longrightarrow>
      AdjustOrientationForGlobeWhenMoving (anchor w) \<longrightarrow>
      transformNotifications (onActorTransformChanged G w) =
        Suc (Suc (transformNotifications w)) \<and>
      actorToECEF_Array (anchor (onActorTransformChanged G w)) =
        adjustOrientationForCurvature G (actorToECEF_Array (anchor w))
          (mat_mul (georeferenceToEcef w) (actorTransform w)) \<and>
      actorTransform (onActorTransformChanged G w) =
        mat_mul (ecefToGeoreference w) (actorToECEF_Array (anchor (onActorTransformChanged G w))))"
proof (intro conjI impI)
  assume "updatingActorTransform (anchor w)"
  then show "onActorTransformChanged G w =
      w\<lparr>transformNotifications := Suc (transformNotifications w)\<rparr>"
    by (rule onActorTransformChanged_ignored)
next
  assume clear: "\<not> updatingActorTransform (anchor w)"
  show "globeRecomputations (onActorTransformChanged G w) = Suc (globeRecomputations w)"
  proof (cases "actorToECEFIsValid (anchor w) \<and> AdjustOrientationForGlobeWhenMoving (anchor w)")
    case True
    with clear show ?thesis
      by (simp add: onActorTransformChanged_adjusting scalar_updates_keep)
  next
    case False
    with clear show ?thesis
      by (simp add: onActorTransformChanged_plain scalar_updates_keep
          updateGlobeTransformFromActorTransform_def)
  qed
  show "actorToECEFIsValid (anchor (onActorTransformChanged G w))"
  proof (cases "actorToECEFIsValid (anchor w) \<and> AdjustOrientationForGlobeWhenMoving (anchor w)")
    case True
    with clear show ?thesis
      by (simp add: onActorTransformChanged_adjusting scalar_updates_keep)
  next
    case False
    with clear show ?thesis
      by (simp add: onActorTransformChanged_plain scalar_updates_keep
          updateGlobeTransformFromActorTransform_def)
  qed
  show "\<not> updatingActorTransform (anchor (onActorTransformChanged G w))"
  proof (cases "actorToECEFIsValid (anchor w) \<and> AdjustOrientationForGlobeWhenMoving (anchor w)")
    case True
    with clear show ?thesis
      by (simp add: onActorTransformChanged_adjusting scalar_updates_keep)
  next
    case False
    with clear show ?thesis
      by (simp add: onActorTransformChanged_plain scalar_updates_keep
          updateGlobeTransformFromActorTransform_def)
  qed
next
  assume adjusting: "\<not> updatingActorTransform (anchor w)" "actorToECEFIsValid (anchor w)"
    "AdjustOrientationForGlobeWhenMoving (anchor w)"
  then show "transformNotifications (onActorTransformChanged G w) =
      Suc (Suc (transformNotifications w))"
    by (simp add: onActorTransformChanged_adjusting scalar_updates_keep)
  from adjusting show "actorToECEF_Array (anchor (onActorTransformChanged G w)) =
      adjustOrientationForCurvature G (actorToECEF_Array (anchor w))
        (mat_mul (georeferenceToEcef w) (actorTransform w))"
    by (simp add: onActorTransformChanged_adjusting scalar_updates_keep)
  from adjusting show "actorTransform (onActorTransformChanged G w) =
      mat_mul (ecefToGeoreference w) (actorToECEF_Array (anchor (onActorTransformChanged G w)))"
    by (simp add: onActorTransformChanged_adjusting scalar_updates_keep)
qed

theorem onActorTransformChanged_recomputes_once_witness:
  "\<forall>G. updatingActorTransform (anchor guarded_world) \<and>
     onActorTransformChanged G guarded_world = guarded_world\<lparr>transformNotifications := 1\<rparr> \<and>
     \<not> updatingActorTransform (anchor moved_world) \<and>
     actorToECEFIsValid (anchor moved_world) \<and>
     AdjustOrientationForGlobeWhenMoving (anchor moved_world) \<and>
     globeRecomputations (onActorTransformChanged G moved_world) = 1 \<and>
     transformNotifications (onActorTransformChanged G moved_world) = 2 \<and>
     \<not> updatingActorTransform (anchor (onActorTransformChanged G moved_world))"
proof
  fix G
  have guarded: "updatingActorTransform (anchor guarded_world)"
    "transformNotifications guarded_world = 0"
    by (simp_all add: guarded_world_def fresh_world_def)
  have moved: "\<not> updatingActorTransform (anchor moved_world)"
    "actorToECEFIsValid (anchor moved_world)"
    "AdjustOrientationForGlobeWhenMoving (anchor moved_world)"
    "transformNotifications moved_world = 0" "globeRecomputations moved_world = 0"
    by (simp_all add: moved_world_def fresh_world_def new_GlobeAnchor_def)
  show "updatingActorTransform (anchor guarded_world) \<and>
     onActorTransformChanged G guarded_world = guarded_world\<lparr>transformNotifications := 1\<rparr> \<and>
     \<not> updatingActorTransform (anchor moved_world) \<and>
     actorToECEFIsValid (anchor moved_world) \<and>
     AdjustOrientationForGlobeWhenMoving (anchor moved_world) \<and>
     globeRecomputations (onActorTransformChanged G moved_world) = 1 \<and>
     transformNotifications (onActorTransformChanged G moved_world) = 2 \<and>
     \<not> updatingActorTransform (anchor (onActorTransformChanged G moved_world))"
    using guarded moved
      onActorTransformChanged_recomputes_once [of guarded_world G]
      onActorTransformChanged_recomputes_once [of moved_world G]
    by simp
qed

end
